theory Spec2Isabelle
  imports Main "HOL-Library.Sublist"
begin

section \<open>JavaScript values, errors and the request context\<close>

text \<open>
  The handlers of \<^verbatim>\<open>src/_server/server.js\<close> and of the routing module
  (\<^verbatim>\<open>setUpRouting\<close>) pass plain JavaScript values around: request bodies, path
  parameters, GraphQL variables and payloads, page data. They are modelled by one datatype;
  an object is an association list of its own properties, and numbers are integers (no
  handler computes with them).
\<close>

datatype jsval =
    JUndefined
  | JNull
  | JBool bool
  | JNum int
  | JStr string
  | JArr "jsval list"
  | JObj "(string \<times> jsval) list"

text \<open>JavaScript's conversion to a boolean, as used by \<^verbatim>\<open>!x\<close>, \<^verbatim>\<open>x && y\<close> and \<^verbatim>\<open>x ? a : b\<close>.\<close>

fun truthy :: "jsval \<Rightarrow> bool" where
  "truthy JUndefined = False"
| "truthy JNull = False"
| "truthy (JBool b) = b"
| "truthy (JNum n) = (n \<noteq> 0)"
| "truthy (JStr s) = (s \<noteq> [])"
| "truthy (JArr _) = True"
| "truthy (JObj _) = True"

text \<open>Reading a property of an object: \<^verbatim>\<open>undefined\<close> when the object has no such property.\<close>

definition field :: "(string \<times> jsval) list \<Rightarrow> string \<Rightarrow> jsval" where
  "field kvs k = (case map_of kvs k of Some v \<Rightarrow> v | None \<Rightarrow> JUndefined)"

text \<open>A thrown error or a rejected promise; the handlers only ever read \<^verbatim>\<open>err.message\<close>.\<close>

datatype err = Err (message: string)

text \<open>A stored user record, as \<^verbatim>\<open>createUser\<close> writes it and \<^verbatim>\<open>findUserByUsername\<close> reads it.\<close>

record user =
  username :: jsval
  passwordHash :: string

record session =
  session_user :: "user option"

text \<open>
  The request context as the catch-all handlers read it: the URL, the host, the cookie header
  and the session. The POST handlers have a context of their own below.
\<close>

record ctx =
  req_url :: string
  request_host :: string
  headers_cookie :: "string option"
  request_body :: "(string \<times> jsval) list"
  ctx_session :: session

text \<open>The arguments of the routing module's \<^verbatim>\<open>fetchGraphQL({ baseUrl, query, variables, cookie })\<close>.\<close>

record fetch_args =
  fa_baseUrl :: string
  fa_query :: string
  fa_variables :: jsval
  fa_cookie :: "string option"

text \<open>
  Calls into collaborators, in the order a handler makes them. \<^verbatim>\<open>FetchGraphQL2\<close> is the
  two-argument \<^verbatim>\<open>fetchGraphQL(query, variables)\<close> of \<^verbatim>\<open>server.js\<close>.
\<close>

datatype call =
    BcryptHash jsval nat
  | CreateUser jsval string
  | FindUserByUsername jsval
  | BcryptCompare jsval string
  | FetchGraphQL fetch_args
  | FetchGraphQL2 string jsval
  | ConsoleError err

text \<open>
  What a handler does to the response: \<^verbatim>\<open>ctx.redirect(path)\<close>, \<^verbatim>\<open>renderPage(ctx, data)\<close>,
  \<^verbatim>\<open>ctx.body = html\<close>, \<^verbatim>\<open>next()\<close>, or an exception that leaves the handler.
\<close>

datatype response =
    Redirect string
  | RenderPage jsval
  | Body string
  | Next
  | Throw err

record outcome =
  calls :: "call list"
  sess :: session
  resp :: response

section \<open>The auth handlers of server.js\<close>

text \<open>
  The collaborators \<^verbatim>\<open>server.js\<close> imports are parameters: bcrypt, the user table, the
  landing path \<^verbatim>\<open>notesPageConfig.route.path\<close>, the route table, react-router's
  \<^verbatim>\<open>matchPath\<close>, \<^verbatim>\<open>fetchGraphQL\<close>, and the three rendering libraries. Every awaited call
  may reject.
\<close>

record rmatch =
  match_params :: jsval

record sroute =
  route_path :: string
  route_query :: "string option"
  route_getVariables :: "(jsval \<Rightarrow> err + jsval) option"

record helmet =
  htmlAttributes :: string
  title :: string
  meta :: string
  link :: string
  bodyAttributes :: string

record server_env =
  bcrypt_hash :: "jsval \<Rightarrow> nat \<Rightarrow> err + string"
  bcrypt_compare :: "jsval \<Rightarrow> string \<Rightarrow> err + bool"
  createUser :: "jsval \<Rightarrow> string \<Rightarrow> err + unit"
  findUserByUsername :: "jsval \<Rightarrow> err + user option"
  notesPagePath :: string
  allPageRoutes :: "sroute list"
  matchPath :: "string \<Rightarrow> sroute \<Rightarrow> rmatch option"
  fetchGraphQL2 :: "string \<Rightarrow> jsval \<Rightarrow> err + jsval"
  renderToString :: "jsval \<Rightarrow> string \<Rightarrow> string"
  renderStatic :: "jsval \<Rightarrow> string \<Rightarrow> helmet"
  serialize :: "jsval \<Rightarrow> string"

text \<open>
  The two properties of the context that the POST handlers read, \<^verbatim>\<open>ctx.request.body\<close>
  and \<^verbatim>\<open>ctx.session\<close>. Each exists only when a middleware upstream of the router has
  set it; \<^verbatim>\<open>main\<close> installs neither a body parser nor a session middleware (server.js
  lines 177 to 183), so either may be \<^verbatim>\<open>undefined\<close>.
\<close>

record post_ctx =
  post_body :: "(string \<times> jsval) list option"
  post_session :: "session option"

record post_outcome =
  pcalls :: "call list"
  psess :: "session option"
  presp :: response

text \<open>The operator \<^verbatim>\<open>!x\<close>.\<close>

definition js_not :: "jsval \<Rightarrow> bool" where
  "js_not v = (\<not> truthy v)"

text \<open>
  Both POST handlers call \<^verbatim>\<open>renderPage(ctx, { prefill, errorMessage })\<close>, but server.js
  neither imports nor defines \<^verbatim>\<open>renderPage\<close> (its imports are lines 3 to 31; the routing
  module imports it from \<^verbatim>\<open>_server/render-page\<close>). Evaluating the unbound identifier
  throws a ReferenceError before any argument is evaluated.
\<close>

definition renderPage_unbound :: err where
  "renderPage_unbound = Err ''renderPage is not defined''"

text \<open>Destructuring \<^verbatim>\<open>const { username, password } = ctx.request.body\<close> without a body.\<close>

definition body_undefined :: err where
  "body_undefined = Err ''Cannot destructure property username of undefined''"

text \<open>The assignment \<^verbatim>\<open>ctx.session.user = user\<close> without a session.\<close>

definition session_undefined :: err where
  "session_undefined = Err ''Cannot set property user of undefined''"

text \<open>\<^verbatim>\<open>router.post('/signup', ...)\<close>, server.js lines 76 to 88.\<close>

definition signup :: "server_env \<Rightarrow> post_ctx \<Rightarrow> post_outcome" where
  "signup E c =
    (case post_body c of
       None \<Rightarrow> \<lparr>pcalls = [], psess = post_session c, presp = Throw body_undefined\<rparr>
     | Some body \<Rightarrow>
        (let username = field body ''username'';
             password = field body ''password''
         in if js_not username \<or> username = JStr '''' \<or> js_not password \<or> password = JStr ''''
            then \<lparr>pcalls = [], psess = post_session c, presp = Throw renderPage_unbound\<rparr>
            else (case bcrypt_hash E password 12 of
                Inl e \<Rightarrow> \<lparr>pcalls = [BcryptHash password 12], psess = post_session c,
                          presp = Throw e\<rparr>
              | Inr hash \<Rightarrow>
                  (case createUser E username hash of
                     Inl e \<Rightarrow> \<lparr>pcalls = [BcryptHash password 12, CreateUser username hash],
                               psess = post_session c, presp = Throw e\<rparr>
                   | Inr _ \<Rightarrow> \<lparr>pcalls = [BcryptHash password 12, CreateUser username hash],
                               psess = post_session c, presp = Redirect (notesPagePath E)\<rparr>))))"

text \<open>
  \<^verbatim>\<open>router.post('/login', ...)\<close>, server.js lines 90 to 102. The \<^verbatim>\<open>&&\<close> evaluates
  \<^verbatim>\<open>bcrypt.compare\<close> only when a user was found.
\<close>

definition login :: "server_env \<Rightarrow> post_ctx \<Rightarrow> post_outcome" where
  "login E c =
    (case post_body c of
       None \<Rightarrow> \<lparr>pcalls = [], psess = post_session c, presp = Throw body_undefined\<rparr>
     | Some body \<Rightarrow>
        (let username = field body ''username'';
             password = field body ''password''
         in case findUserByUsername E username of
              Inl e \<Rightarrow> \<lparr>pcalls = [FindUserByUsername username], psess = post_session c,
                        presp = Throw e\<rparr>
            | Inr None \<Rightarrow> \<lparr>pcalls = [FindUserByUsername username], psess = post_session c,
                           presp = Throw renderPage_unbound\<rparr>
            | Inr (Some u) \<Rightarrow>
                (let cs = [FindUserByUsername username, BcryptCompare password (passwordHash u)]
                 in case bcrypt_compare E password (passwordHash u) of
                      Inl e \<Rightarrow> \<lparr>pcalls = cs, psess = post_session c, presp = Throw e\<rparr>
                    | Inr True \<Rightarrow>
                        (case post_session c of
                           None \<Rightarrow> \<lparr>pcalls = cs, psess = None, presp = Throw session_undefined\<rparr>
                         | Some s \<Rightarrow> \<lparr>pcalls = cs, psess = Some (s\<lparr>session_user := Some u\<rparr>),
                                       presp = Redirect (notesPagePath E)\<rparr>)
                    | Inr False \<Rightarrow> \<lparr>pcalls = cs, psess = post_session c,
                                    presp = Throw renderPage_unbound\<rparr>)))"

text \<open>\<^verbatim>\<open>router.get('/logout', ...)\<close>: the session is dropped and the client sent home.\<close>

definition logout :: "ctx \<Rightarrow> session option \<times> response" where
  "logout c = (None, Redirect ''/'')"

section \<open>The catch-all handler of server.js\<close>

text \<open>
  \<^verbatim>\<open>let match = {}\<close> is assigned by every call of the \<^verbatim>\<open>find\<close> callback, so after the
  search it holds the result of the last \<^verbatim>\<open>matchPath\<close> call (\<^verbatim>\<open>null\<close> when that
  route did not match), or still the empty object when the table is empty.
\<close>

datatype matchvar = EmptyObject | MatchResult "rmatch option"

text \<open>
  \<^verbatim>\<open>allPageRoutes.find(route => { match = matchPath(url, route); return match })\<close>:
  the routes are tried in order and the search stops at the first one whose match is
  not \<^verbatim>\<open>null\<close>. The result is the route found and the final value of \<^verbatim>\<open>match\<close>.
\<close>

fun find_route ::
  "(string \<Rightarrow> sroute \<Rightarrow> rmatch option) \<Rightarrow> string \<Rightarrow> sroute list \<Rightarrow> matchvar
     \<Rightarrow> sroute option \<times> matchvar" where
  "find_route mp url [] m = (None, m)"
| "find_route mp url (r # rs) m =
     (case mp url r of
        Some mt \<Rightarrow> (Some r, MatchResult (Some mt))
      | None \<Rightarrow> find_route mp url rs (MatchResult None))"

text \<open>
  \<^verbatim>\<open>activeRoute.getVariables && activeRoute.getVariables(match.params)\<close>, where
  \<^verbatim>\<open>activeRoute\<close> is the route found or \<^verbatim>\<open>{}\<close>. Without a \<^verbatim>\<open>getVariables\<close> the
  value is \<^verbatim>\<open>undefined\<close> and \<^verbatim>\<open>match.params\<close> is not evaluated.
\<close>

definition queryVariables :: "sroute option \<Rightarrow> matchvar \<Rightarrow> err + jsval" where
  "queryVariables activeRoute match =
    (case activeRoute of
       None \<Rightarrow> Inr JUndefined
     | Some r \<Rightarrow>
         (case route_getVariables r of
            None \<Rightarrow> Inr JUndefined
          | Some getVariables \<Rightarrow>
              (case match of
                 EmptyObject \<Rightarrow> getVariables JUndefined
               | MatchResult None \<Rightarrow> Inl (Err ''Cannot read property params of null'')
               | MatchResult (Some m) \<Rightarrow> getVariables (match_params m))))"

text \<open>\<^verbatim>\<open>activeRoute.query\<close>, as the condition of \<^verbatim>\<open>? :\<close>: a non-empty query string.\<close>

definition activeQuery :: "sroute option \<Rightarrow> string option" where
  "activeQuery activeRoute =
    (case activeRoute of
       None \<Rightarrow> None
     | Some r \<Rightarrow> (case route_query r of None \<Rightarrow> None | Some q \<Rightarrow> if q = [] then None else Some q))"

definition getGeneralData :: "ctx \<Rightarrow> jsval" where
  "getGeneralData c = JObj [(''username'', JStr ''Sven'')]"

text \<open>The state of the store created for the request: \<^verbatim>\<open>{ page: pageData, general: ... }\<close>.\<close>

definition storeState :: "ctx \<Rightarrow> jsval \<Rightarrow> jsval" where
  "storeState c pageData = JObj [(''page'', pageData), (''general'', getGeneralData c)]"

definition nl :: string where
  "nl = [CHR 0x0A]"

text \<open>The template literal assigned to \<^verbatim>\<open>ctx.body\<close>, server.js lines 147 to 160.\<close>

definition document :: "helmet \<Rightarrow> string \<Rightarrow> string \<Rightarrow> string" where
  \<open>document h appHtml blob = concat
    [''<!doctype html>'', nl,
     ''    <html '', htmlAttributes h, ''>'', nl,
     ''      <head>'', nl,
     ''        <meta charset="utf-8">'', nl,
     ''        '', title h, nl,
     ''        '', meta h, nl,
     ''        '', link h, nl,
     ''      </head>'', nl,
     ''      <body '', bodyAttributes h, ''>'', nl,
     ''        <div id="app">'', appHtml, ''</div>'', nl,
     ''        <script>window.__PRELOADED_STATE__ = '', blob, ''</script>'', nl,
     ''        <script src="/static/js/bundle.js"></script>'', nl,
     ''      </body>'', nl,
     ''    </html>'']\<close>

text \<open>The render path, server.js lines 137 to 160.\<close>

definition renderBody :: "server_env \<Rightarrow> ctx \<Rightarrow> jsval \<Rightarrow> string" where
  "renderBody E c pageData =
    (let state = storeState c pageData;
         appHtml = renderToString E state (req_url c);
         h = renderStatic E state (req_url c)
     in document h appHtml (serialize E state))"

text \<open>\<^verbatim>\<open>router.get('*', ...)\<close> of server.js, lines 113 to 161.\<close>

definition server_ssr :: "server_env \<Rightarrow> ctx \<Rightarrow> outcome" where
  "server_ssr E c =
    (let (activeRoute, match) = find_route (matchPath E) (req_url c) (allPageRoutes E) EmptyObject
     in if prefix ''/static'' (req_url c)
        then \<lparr>calls = [], sess = ctx_session c, resp = Next\<rparr>
        else (case queryVariables activeRoute match of
            Inl e \<Rightarrow> \<lparr>calls = [], sess = ctx_session c, resp = Throw e\<rparr>
          | Inr vars \<Rightarrow>
              (case activeQuery activeRoute of
                 None \<Rightarrow> \<lparr>calls = [], sess = ctx_session c,
                           resp = Body (renderBody E c (JObj []))\<rparr>
               | Some q \<Rightarrow>
                   (case fetchGraphQL2 E q vars of
                      Inl e \<Rightarrow> \<lparr>calls = [FetchGraphQL2 q vars], sess = ctx_session c,
                                resp = Redirect ''/unauthorized''\<rparr>
                    | Inr pageData \<Rightarrow> \<lparr>calls = [FetchGraphQL2 q vars], sess = ctx_session c,
                                resp = Body (renderBody E c pageData)\<rparr>))))"

section \<open>The routing module: graphqlCall and the catch-all handler of setUpRouting\<close>

record graphql_cfg =
  gq_query :: string
  mapParams :: "(jsval \<Rightarrow> err + jsval) option"
  mapResp :: "(jsval \<Rightarrow> err + jsval) option"

record route =
  graphql :: "graphql_cfg option"

text \<open>
  The module's imports are parameters: the flag \<^verbatim>\<open>DISABLE_SSL\<close>, the matcher
  \<^verbatim>\<open>getMatchAndRoute(isAuthenticated, url)\<close> and \<^verbatim>\<open>fetchGraphQL\<close>.
\<close>

record routing_env =
  DISABLE_SSL :: bool
  getMatchAndRoute :: "bool \<Rightarrow> string \<Rightarrow> rmatch \<times> route"
  fetchGraphQL :: "fetch_args \<Rightarrow> err + jsval"

text \<open>
  \<^verbatim>\<open>graphqlCall(graphql, params, baseUrl, cookie)\<close>: the variables are the mapped
  parameters when the route has a \<^verbatim>\<open>mapParams\<close>, the parameters themselves otherwise.
  A mapper that throws makes the call fail before anything is fetched.
\<close>

definition graphqlCall ::
  "routing_env \<Rightarrow> graphql_cfg \<Rightarrow> jsval \<Rightarrow> string \<Rightarrow> string option \<Rightarrow> call list \<times> (err + jsval)" where
  "graphqlCall E g params baseUrl cookie =
    (case (case mapParams g of Some f \<Rightarrow> f params | None \<Rightarrow> Inr params) of
       Inl e \<Rightarrow> ([], Inl e)
     | Inr vars \<Rightarrow>
         (let args = \<lparr>fa_baseUrl = baseUrl, fa_query = gq_query g,
                      fa_variables = vars, fa_cookie = cookie\<rparr>
          in ([FetchGraphQL args], fetchGraphQL E args)))"

text \<open>
  The \<^verbatim>\<open>catch (err)\<close> block of the handler; \<^verbatim>\<open>pageData\<close> is the variable's value when
  the exception was thrown.
\<close>

definition catchBlock :: "err \<Rightarrow> call list \<Rightarrow> ctx \<Rightarrow> jsval \<Rightarrow> outcome" where
  "catchBlock e cs c pageData =
    (if message e = ''unauthorized''
     then \<lparr>calls = cs, sess = ctx_session c, resp = Redirect ''/login''\<rparr>
     else \<lparr>calls = cs @ [ConsoleError e], sess = ctx_session c, resp = RenderPage pageData\<rparr>)"

definition baseUrlOf :: "routing_env \<Rightarrow> ctx \<Rightarrow> string" where
  "baseUrlOf E c = ''http'' @ (if DISABLE_SSL E then '''' else ''s'') @ ''://'' @ request_host c"

text \<open>\<^verbatim>\<open>router.get('*', ...)\<close> of \<^verbatim>\<open>setUpRouting\<close>, routing module lines 51 to 75.\<close>

definition routing_ssr :: "routing_env \<Rightarrow> ctx \<Rightarrow> outcome" where
  "routing_ssr E c =
    (let (match, route) = getMatchAndRoute E (session_user (ctx_session c) \<noteq> None) (req_url c)
     in case graphql route of
          None \<Rightarrow> \<lparr>calls = [], sess = ctx_session c, resp = RenderPage (JObj [])\<rparr>
        | Some g \<Rightarrow>
            (case graphqlCall E g (match_params match) (baseUrlOf E c) (headers_cookie c) of
               (cs, Inl e) \<Rightarrow> catchBlock e cs c (JObj [])
             | (cs, Inr payload) \<Rightarrow>
                 (case mapResp g of
                    None \<Rightarrow> \<lparr>calls = cs, sess = ctx_session c, resp = RenderPage payload\<rparr>
                  | Some f \<Rightarrow>
                      (case f payload of
                         Inl e \<Rightarrow> catchBlock e cs c payload
                       | Inr pageData \<Rightarrow>
                           \<lparr>calls = cs, sess = ctx_session c, resp = RenderPage pageData\<rparr>))))"

section \<open>Sample requests and collaborators\<close>

text \<open>
  A small installation used to run the handlers on concrete requests: one stored user, a
  route table in which \<^verbatim>\<open>/note/:id\<close> comes before \<^verbatim>\<open>/note/123\<close> and \<^verbatim>\<open>/\<close>, and a
  matcher that binds \<^verbatim>\<open>id\<close> for the first and compares the others literally.
\<close>

definition demo_user :: user where
  "demo_user = \<lparr>username = JStr ''sven'', passwordHash = ''$2b$12$stored''\<rparr>"

definition note_query :: string where
  "note_query = ''query ($id: ID!) { note(id: $id) { id name } }''"

definition note_route :: sroute where
  "note_route = \<lparr>route_path = ''/note/:id'', route_query = Some note_query,
                  route_getVariables = None\<rparr>"

definition pinned_route :: sroute where
  "pinned_route = \<lparr>route_path = ''/note/123'', route_query = None, route_getVariables = None\<rparr>"

definition home_route :: sroute where
  "home_route = \<lparr>route_path = ''/'', route_query = None, route_getVariables = None\<rparr>"

definition demo_routes :: "sroute list" where
  "demo_routes = [note_route, pinned_route, home_route]"

definition demo_matchPath :: "string \<Rightarrow> sroute \<Rightarrow> rmatch option" where
  "demo_matchPath url r =
    (if route_path r = ''/note/:id'' \<and> take 6 url = ''/note/'' \<and> 6 < length url
     then Some \<lparr>match_params = JObj [(''id'', JStr (drop 6 url))]\<rparr>
     else if route_path r = url then Some \<lparr>match_params = JObj []\<rparr>
     else None)"

definition demo_helmet :: helmet where
  "demo_helmet = \<lparr>htmlAttributes = ''lang=en'', title = ''<title>Notes</title>'',
                   meta = '''', link = '''', bodyAttributes = ''''\<rparr>"

definition demo_server :: "(string \<Rightarrow> jsval \<Rightarrow> err + jsval) \<Rightarrow> server_env" where
  "demo_server fetch =
    \<lparr>bcrypt_hash = (\<lambda>password rounds. Inr ''$2b$12$stored''),
     bcrypt_compare = (\<lambda>password hash. Inr (password = JStr ''secret'' \<and> hash = ''$2b$12$stored'')),
     createUser = (\<lambda>name hash. Inr ()),
     findUserByUsername = (\<lambda>name. Inr (if name = JStr ''sven'' then Some demo_user else None)),
     notesPagePath = ''/notes'',
     allPageRoutes = demo_routes,
     matchPath = demo_matchPath,
     fetchGraphQL2 = fetch,
     renderToString = (\<lambda>state url. ''<main></main>''),
     renderStatic = (\<lambda>state url. demo_helmet),
     serialize = (\<lambda>state. ''{}'')\<rparr>"

definition demo_ctx :: "string \<Rightarrow> (string \<times> jsval) list \<Rightarrow> ctx" where
  "demo_ctx url body =
    \<lparr>req_url = url, request_host = ''localhost:8000'', headers_cookie = Some ''koa:sess=abc'',
     request_body = body, ctx_session = \<lparr>session_user = None\<rparr>\<rparr>"

text \<open>
  A POST context as a body parser and a session middleware would leave it, with no user
  logged in, and the context as \<^verbatim>\<open>main\<close> wires it.
\<close>

definition demo_post :: "(string \<times> jsval) list \<Rightarrow> post_ctx" where
  "demo_post body = \<lparr>post_body = Some body, post_session = Some \<lparr>session_user = None\<rparr>\<rparr>"

definition unwired_post :: post_ctx where
  "unwired_post = \<lparr>post_body = None, post_session = None\<rparr>"

text \<open>The payload of a query for a note that does not exist.\<close>

definition missing_note_payload :: jsval where
  "missing_note_payload = JObj [(''note'', JNull)]"

definition note_payload :: jsval where
  "note_payload = JObj [(''note'', JObj [(''id'', JStr ''123''), (''name'', JStr ''Medor'')])]"

text \<open>A response mapper that keeps the note's name only, and one that throws.\<close>

definition note_name :: "jsval \<Rightarrow> err + jsval" where
  "note_name payload =
    (case payload of
       JObj kvs \<Rightarrow>
         (case field kvs ''note'' of
            JObj note \<Rightarrow> Inr (JObj [(''name'', field note ''name'')])
          | JNull \<Rightarrow> Inl (Err ''Cannot read property name of null'')
          | _ \<Rightarrow> Inl (Err ''Cannot read property name of undefined''))
     | _ \<Rightarrow> Inl (Err ''Cannot read property note of undefined''))"

definition add_prefix :: "jsval \<Rightarrow> err + jsval" where
  "add_prefix params =
    (case params of
       JObj kvs \<Rightarrow> Inr (JObj [(''noteId'', field kvs ''id'')])
     | _ \<Rightarrow> Inl (Err ''Cannot read property id of undefined''))"

definition demo_graphql ::
  "(jsval \<Rightarrow> err + jsval) option \<Rightarrow> (jsval \<Rightarrow> err + jsval) option \<Rightarrow> graphql_cfg" where
  "demo_graphql mp mr = \<lparr>gq_query = note_query, mapParams = mp, mapResp = mr\<rparr>"

definition demo_routing :: "graphql_cfg option \<Rightarrow> (fetch_args \<Rightarrow> err + jsval) \<Rightarrow> routing_env" where
  "demo_routing g fetch =
    \<lparr>DISABLE_SSL = False,
     getMatchAndRoute = (\<lambda>isAuthenticated url.
        (\<lparr>match_params = JObj [(''id'', JStr ''123'')]\<rparr>, \<lparr>graphql = g\<rparr>)),
     fetchGraphQL = fetch\<rparr>"

section \<open>Facts about the route search\<close>

lemma find_route_none:
  "(\<forall>r\<in>set rs. mp url r = None) \<Longrightarrow>
     find_route mp url rs m = (None, if rs = [] then m else MatchResult None)"
  by (induction rs arbitrary: m) auto

lemma find_route_append:
  "(\<forall>p\<in>set pre. mp url p = None) \<Longrightarrow> mp url r = Some mt \<Longrightarrow>
     find_route mp url (pre @ r # post) m = (Some r, MatchResult (Some mt))"
  by (induction pre arbitrary: m) auto

lemma find_route_found:
  "find_route mp url rs m = (Some r, mv) \<Longrightarrow>
     \<exists>mt. mp url r = Some mt \<and> mv = MatchResult (Some mt) \<and> r \<in> set rs"
  by (induction rs arbitrary: m) (auto split: option.splits)

text \<open>The search agrees with the library's \<^const>\<open>List.find\<close> on the route it returns.\<close>

lemma find_route_is_find:
  "fst (find_route mp url rs m) = List.find (\<lambda>r. mp url r \<noteq> None) rs"
  by (induction rs arbitrary: m) (auto split: option.splits)

lemmas demo_defs = demo_server_def demo_ctx_def demo_routes_def note_route_def pinned_route_def
  home_route_def demo_matchPath_def demo_user_def demo_routing_def demo_graphql_def
  demo_helmet_def note_query_def note_payload_def note_name_def add_prefix_def

section \<open>Route matching\<close>

text \<open>
  Claim C4. The route search is a function of the table and the URL, and it respects the
  order of declaration: when the entry at index \<open>i\<close> matches the URL and no entry before it
  does, the search returns exactly that entry, and the \<^verbatim>\<open>match\<close> variable holds the
  parameters \<^verbatim>\<open>matchPath\<close> extracted for it. Whatever follows index \<open>i\<close> in the table,
  matching or not, has no influence; of two matching entries the earlier one is selected.
\<close>

theorem find_route_first_match:
  assumes "i < length rs"
    and "mp url (rs ! i) = Some mt"
    and "\<forall>j<i. mp url (rs ! j) = None"
  shows "find_route mp url rs m0 = (Some (rs ! i), MatchResult (Some mt))"
proof -
  have decomposed: "rs = take i rs @ rs ! i # drop (Suc i) rs"
    using assms(1) by (simp add: id_take_nth_drop)
  have "\<forall>p\<in>set (take i rs). mp url p = None"
    using assms(1,3) by (auto simp: in_set_conv_nth)
  then have "find_route mp url (take i rs @ rs ! i # drop (Suc i) rs) m0
      = (Some (rs ! i), MatchResult (Some mt))"
    using assms(2) by (rule find_route_append)
  with decomposed show ?thesis by simp
qed

text \<open>
  On the sample table both \<^verbatim>\<open>/note/:id\<close> (index 0) and \<^verbatim>\<open>/note/123\<close> (index 1) match
  the URL \<^verbatim>\<open>/note/123\<close>; the first is selected, with \<^verbatim>\<open>id\<close> bound.
\<close>

theorem find_route_first_match_witness:
  "0 < length demo_routes \<and>
   demo_matchPath ''/note/123'' (demo_routes ! 0) = Some \<lparr>match_params = JObj [(''id'', JStr ''123'')]\<rparr> \<and>
   demo_matchPath ''/note/123'' (demo_routes ! 1) = Some \<lparr>match_params = JObj []\<rparr> \<and>
   find_route demo_matchPath ''/note/123'' demo_routes EmptyObject
     = (Some note_route, MatchResult (Some \<lparr>match_params = JObj [(''id'', JStr ''123'')]\<rparr>))"
  using find_route_first_match [of 0 demo_routes demo_matchPath "''/note/123''"
      "\<lparr>match_params = JObj [(''id'', JStr ''123'')]\<rparr>" EmptyObject]
  by (simp add: demo_defs)

section \<open>Login and signup\<close>

text \<open>
  What the two handlers do on the branches that do not reach \<^verbatim>\<open>renderPage\<close>, for a
  context that has a body and a session.
\<close>

lemma login_success:
  assumes "post_body c = Some body"
    and "post_session c = Some s"
    and "findUserByUsername E (field body ''username'') = Inr (Some u)"
    and "bcrypt_compare E (field body ''password'') (passwordHash u) = Inr True"
  shows "login E c =
    \<lparr>pcalls = [FindUserByUsername (field body ''username''),
               BcryptCompare (field body ''password'') (passwordHash u)],
     psess = Some (s\<lparr>session_user := Some u\<rparr>),
     presp = Redirect (notesPagePath E)\<rparr>"
  using assms by (simp add: login_def Let_def)

lemma signup_valid:
  assumes "post_body c = Some body"
    and "field body ''username'' = JStr name" and "name \<noteq> []"
    and "field body ''password'' = JStr pw" and "pw \<noteq> []"
    and "bcrypt_hash E (JStr pw) 12 = Inr h"
    and "createUser E (JStr name) h = Inr ()"
  shows "signup E c =
    \<lparr>pcalls = [BcryptHash (JStr pw) 12, CreateUser (JStr name) h],
     psess = post_session c, presp = Redirect (notesPagePath E)\<rparr>"
  using assms by (simp add: signup_def Let_def js_not_def)

text \<open>
  Every failed login ends in the unbound \<^verbatim>\<open>renderPage\<close>: the session is left as it was,
  \<^verbatim>\<open>bcrypt.compare\<close> is called only when a user was found, and no page is rendered.
\<close>

lemma login_failure_throws:
  assumes "post_body c = Some body"
    and "findUserByUsername E (field body ''username'') = Inr None \<or>
         (\<exists>u. findUserByUsername E (field body ''username'') = Inr (Some u) \<and>
              bcrypt_compare E (field body ''password'') (passwordHash u) = Inr False)"
  shows "presp (login E c) = Throw renderPage_unbound \<and> psess (login E c) = post_session c"
  using assms by (auto simp: login_def Let_def)

lemma login_unknown_user_no_compare:
  assumes "post_body c = Some body"
    and "findUserByUsername E (field body ''username'') = Inr None"
  shows "pcalls (login E c) = [FindUserByUsername (field body ''username'')]"
  using assms by (simp add: login_def Let_def)

text \<open>
  A signup with a missing or empty field calls no collaborator and ends in the unbound
  \<^verbatim>\<open>renderPage\<close>.
\<close>

lemma signup_invalid_throws:
  assumes "post_body c = Some body"
    and "field body ''username'' \<in> {JUndefined, JStr ''''} \<or>
         field body ''password'' \<in> {JUndefined, JStr ''''}"
  shows "signup E c = \<lparr>pcalls = [], psess = post_session c, presp = Throw renderPage_unbound\<rparr>"
  using assms by (auto simp: signup_def Let_def js_not_def)

text \<open>
  Without a body parser the destructuring on the first line of either handler throws, whatever
  was submitted; without a session middleware a successful login throws at the assignment.
\<close>

lemma post_without_body:
  "post_body c = None \<Longrightarrow>
     presp (signup E c) = Throw body_undefined \<and> presp (login E c) = Throw body_undefined"
  by (simp add: signup_def login_def)

lemma post_as_wired:
  "presp (signup E unwired_post) = Throw body_undefined \<and>
   presp (login E unwired_post) = Throw body_undefined"
  by (simp add: signup_def login_def unwired_post_def)

lemma login_without_session:
  assumes "post_body c = Some body"
    and "post_session c = None"
    and "findUserByUsername E (field body ''username'') = Inr (Some u)"
    and "bcrypt_compare E (field body ''password'') (passwordHash u) = Inr True"
  shows "presp (login E c) = Throw session_undefined"
  using assms by (simp add: login_def Let_def)

text \<open>
  Claim C7, on \<^verbatim>\<open>POST /login\<close> of server.js. The user \<^verbatim>\<open>sven\<close> exists and the
  submitted password does not verify: the session is not mutated, as the claim says, but
  the page is not rendered again; line 97 throws the ReferenceError of the unbound
  \<^verbatim>\<open>renderPage\<close>, which leaves the handler. (With the right password the session's user
  becomes the stored record and the response is the redirect: lemma \<open>login_success\<close>.)
\<close>

theorem login_wrong_password_throws:
  "login (demo_server (\<lambda>q v. Inr JNull))
         (demo_post [(''username'', JStr ''sven''), (''password'', JStr ''wrong'')])
     = \<lparr>pcalls = [FindUserByUsername (JStr ''sven''), BcryptCompare (JStr ''wrong'') ''$2b$12$stored''],
        psess = Some \<lparr>session_user = None\<rparr>,
        presp = Throw (Err ''renderPage is not defined'')\<rparr>"
  by (simp add: login_def demo_server_def demo_post_def demo_user_def field_def Let_def
      renderPage_unbound_def)

text \<open>
  Claim C10, on \<^verbatim>\<open>POST /login\<close> of server.js. No user \<^verbatim>\<open>nobody\<close> exists:
  \<^verbatim>\<open>bcrypt.compare\<close> is not called and the session is not mutated, as the claim says, but
  the page is not rendered again with an error message; line 97 throws the ReferenceError
  of the unbound \<^verbatim>\<open>renderPage\<close>.
\<close>

theorem login_unknown_username_throws:
  "login (demo_server (\<lambda>q v. Inr JNull))
         (demo_post [(''username'', JStr ''nobody''), (''password'', JStr ''secret'')])
     = \<lparr>pcalls = [FindUserByUsername (JStr ''nobody'')],
        psess = Some \<lparr>session_user = None\<rparr>,
        presp = Throw (Err ''renderPage is not defined'')\<rparr>"
  by (simp add: login_def demo_server_def demo_post_def demo_user_def field_def Let_def
      renderPage_unbound_def)

text \<open>
  Claim C8, on \<^verbatim>\<open>POST /signup\<close> of server.js. The password is empty: nothing is hashed
  and no user is created, as the claim says, but the page is not rendered again with the
  fields pre-filled; line 79 throws the ReferenceError of the unbound \<^verbatim>\<open>renderPage\<close>.
  (With both fields non-empty the password is hashed, the user created and the response is
  the redirect: lemma \<open>signup_valid\<close>.)
\<close>

theorem signup_empty_password_throws:
  "signup (demo_server (\<lambda>q v. Inr JNull))
          (demo_post [(''username'', JStr ''sven''), (''password'', JStr '''')])
     = \<lparr>pcalls = [], psess = Some \<lparr>session_user = None\<rparr>,
        presp = Throw (Err ''renderPage is not defined'')\<rparr>"
  by (simp add: signup_def demo_server_def demo_post_def field_def Let_def js_not_def
      renderPage_unbound_def)

section \<open>Properties of the catch-all handler of setUpRouting\<close>

text \<open>
  What \<^verbatim>\<open>graphqlCall\<close> sends: the mapped parameters when the route has a mapper (and the
  mapper returns), the raw path parameters when it has none. This is the behaviour claim C5
  describes; the handler of \<^verbatim>\<open>server.js\<close> differs (see below).
\<close>

lemma graphqlCall_variables:
  "(mapParams g = Some f \<and> f params = Inr vars \<longrightarrow>
      graphqlCall E g params baseUrl cookie =
        ([FetchGraphQL \<lparr>fa_baseUrl = baseUrl, fa_query = gq_query g, fa_variables = vars,
                        fa_cookie = cookie\<rparr>],
         fetchGraphQL E \<lparr>fa_baseUrl = baseUrl, fa_query = gq_query g, fa_variables = vars,
                        fa_cookie = cookie\<rparr>)) \<and>
   (mapParams g = None \<longrightarrow>
      graphqlCall E g params baseUrl cookie =
        ([FetchGraphQL \<lparr>fa_baseUrl = baseUrl, fa_query = gq_query g, fa_variables = params,
                        fa_cookie = cookie\<rparr>],
         fetchGraphQL E \<lparr>fa_baseUrl = baseUrl, fa_query = gq_query g, fa_variables = params,
                        fa_cookie = cookie\<rparr>))"
  by (simp add: graphqlCall_def Let_def)

text \<open>
  The two failure transitions of \<^verbatim>\<open>setUpRouting\<close>'s handler, as claims C1 and C2
  describe them: the sentinel message redirects to \<^verbatim>\<open>/login\<close> and nothing is rendered or
  logged; any other failure of the call is logged and the page is rendered with the empty
  object \<^verbatim>\<open>pageData\<close> was initialised to.
\<close>

lemma routing_ssr_unauthorized:
  assumes "getMatchAndRoute E (session_user (ctx_session c) \<noteq> None) (req_url c) = (m, r)"
    and "graphql r = Some g"
    and "graphqlCall E g (match_params m) (baseUrlOf E c) (headers_cookie c) = (cs, Inl e)"
    and "message e = ''unauthorized''"
  shows "routing_ssr E c = \<lparr>calls = cs, sess = ctx_session c, resp = Redirect ''/login''\<rparr>"
  using assms by (simp add: routing_ssr_def catchBlock_def)

lemma routing_ssr_other_failure:
  assumes "getMatchAndRoute E (session_user (ctx_session c) \<noteq> None) (req_url c) = (m, r)"
    and "graphql r = Some g"
    and "graphqlCall E g (match_params m) (baseUrlOf E c) (headers_cookie c) = (cs, Inl e)"
    and "message e \<noteq> ''unauthorized''"
  shows "routing_ssr E c =
    \<lparr>calls = cs @ [ConsoleError e], sess = ctx_session c, resp = RenderPage (JObj [])\<rparr>"
  using assms by (simp add: routing_ssr_def catchBlock_def)

text \<open>
  The response mapper runs inside the same \<^verbatim>\<open>try\<close>, after \<^verbatim>\<open>pageData\<close> was assigned:
  when it throws, the \<^verbatim>\<open>catch\<close> block sees the payload in \<^verbatim>\<open>pageData\<close>.
\<close>

lemma routing_ssr_mapper_throws:
  assumes "getMatchAndRoute E (session_user (ctx_session c) \<noteq> None) (req_url c) = (m, r)"
    and "graphql r = Some g"
    and "graphqlCall E g (match_params m) (baseUrlOf E c) (headers_cookie c) = (cs, Inr payload)"
    and "mapResp g = Some f"
    and "f payload = Inl e"
  shows "routing_ssr E c = catchBlock e cs c payload"
  using assms by (simp add: routing_ssr_def)

lemma routing_ssr_never_next: "resp (routing_ssr E c) \<noteq> Next"
  by (auto simp: routing_ssr_def catchBlock_def split: prod.splits option.splits sum.splits)

text \<open>
  Claim C6, as stated, fails. The route declares the response mapper \<^const>\<open>note_name\<close>,
  the GraphQL call succeeds with the payload \<^verbatim>\<open>{ note: null }\<close>, and the mapper throws on
  it: the error is logged and \<^verbatim>\<open>renderPage\<close> receives the raw payload.
\<close>

theorem routing_ssr_raw_payload_rendered:
  "mapResp (demo_graphql None (Some note_name)) = Some note_name \<and>
   graphqlCall (demo_routing (Some (demo_graphql None (Some note_name))) (\<lambda>a. Inr missing_note_payload))
      (demo_graphql None (Some note_name)) (JObj [(''id'', JStr ''123'')])
      ''https://localhost:8000'' (Some ''koa:sess=abc'')
      = ([FetchGraphQL \<lparr>fa_baseUrl = ''https://localhost:8000'', fa_query = note_query,
            fa_variables = JObj [(''id'', JStr ''123'')], fa_cookie = Some ''koa:sess=abc''\<rparr>],
         Inr missing_note_payload) \<and>
   note_name missing_note_payload = Inl (Err ''Cannot read property name of null'') \<and>
   routing_ssr (demo_routing (Some (demo_graphql None (Some note_name))) (\<lambda>a. Inr missing_note_payload))
      (demo_ctx ''/note/123'' [])
      = \<lparr>calls = [FetchGraphQL \<lparr>fa_baseUrl = ''https://localhost:8000'', fa_query = note_query,
            fa_variables = JObj [(''id'', JStr ''123'')], fa_cookie = Some ''koa:sess=abc''\<rparr>,
                  ConsoleError (Err ''Cannot read property name of null'')],
         sess = \<lparr>session_user = None\<rparr>,
         resp = RenderPage missing_note_payload\<rparr>"
  by (simp add: routing_ssr_def catchBlock_def graphqlCall_def baseUrlOf_def demo_routing_def
      demo_graphql_def demo_ctx_def note_name_def missing_note_payload_def field_def Let_def)

text \<open>
  Claim C6, amended. For a matched route with a GraphQL query whose call succeeds with a
  payload: when the route declares a response mapper and the mapper returns, the page data
  handed to \<^verbatim>\<open>renderPage\<close> is what the mapper returns for the payload; when it declares
  none, it is the payload itself. When a declared mapper throws, the failure policy applies
  with the page data set before the failure, which is the raw payload: the sentinel message
  redirects to \<^verbatim>\<open>/login\<close>, any other error is logged and \<^verbatim>\<open>renderPage\<close> receives the raw
  payload.
\<close>

theorem routing_ssr_maps_response:
  assumes "getMatchAndRoute E (session_user (ctx_session c) \<noteq> None) (req_url c) = (m, r)"
    and "graphql r = Some g"
    and "graphqlCall E g (match_params m) (baseUrlOf E c) (headers_cookie c) = (cs, Inr payload)"
  shows "(\<forall>f pageData. mapResp g = Some f \<and> f payload = Inr pageData \<longrightarrow>
            resp (routing_ssr E c) = RenderPage pageData) \<and>
         (mapResp g = None \<longrightarrow> resp (routing_ssr E c) = RenderPage payload) \<and>
         (\<forall>f e. mapResp g = Some f \<and> f payload = Inl e \<and> message e = ''unauthorized'' \<longrightarrow>
            resp (routing_ssr E c) = Redirect ''/login'') \<and>
         (\<forall>f e. mapResp g = Some f \<and> f payload = Inl e \<and> message e \<noteq> ''unauthorized'' \<longrightarrow>
            calls (routing_ssr E c) = cs @ [ConsoleError e] \<and>
            resp (routing_ssr E c) = RenderPage payload)"
  using assms by (simp add: routing_ssr_def catchBlock_def)

text \<open>
  With the mapper \<^const>\<open>note_name\<close> and the payload of an existing note the renderer
  receives the name only; without a mapper it receives the payload; with the mapper and the
  payload of a missing note the mapper throws and the renderer receives that payload; a
  mapper that throws the sentinel redirects.
\<close>

theorem routing_ssr_maps_response_witness:
  "(note_name note_payload = Inr (JObj [(''name'', JStr ''Medor'')]) \<and>
    resp (routing_ssr (demo_routing (Some (demo_graphql None (Some note_name))) (\<lambda>a. Inr note_payload))
            (demo_ctx ''/note/123'' []))
      = RenderPage (JObj [(''name'', JStr ''Medor'')])) \<and>
   (mapResp (demo_graphql None None) = None \<and>
    resp (routing_ssr (demo_routing (Some (demo_graphql None None)) (\<lambda>a. Inr note_payload))
            (demo_ctx ''/note/123'' []))
      = RenderPage note_payload) \<and>
   (note_name missing_note_payload = Inl (Err ''Cannot read property name of null'') \<and>
    resp (routing_ssr (demo_routing (Some (demo_graphql None (Some note_name))) (\<lambda>a. Inr missing_note_payload))
            (demo_ctx ''/note/123'' []))
      = RenderPage missing_note_payload) \<and>
   (resp (routing_ssr (demo_routing (Some (demo_graphql None (Some (\<lambda>p. Inl (Err ''unauthorized'')))))
                        (\<lambda>a. Inr note_payload))
            (demo_ctx ''/note/123'' []))
      = Redirect ''/login'')"
  using
    routing_ssr_maps_response [of
      "demo_routing (Some (demo_graphql None (Some note_name))) (\<lambda>a. Inr note_payload)"
      "demo_ctx ''/note/123'' []" "\<lparr>match_params = JObj [(''id'', JStr ''123'')]\<rparr>"
      "\<lparr>graphql = Some (demo_graphql None (Some note_name))\<rparr>"
      "demo_graphql None (Some note_name)"
      "[FetchGraphQL \<lparr>fa_baseUrl = ''https://localhost:8000'', fa_query = note_query,
            fa_variables = JObj [(''id'', JStr ''123'')], fa_cookie = Some ''koa:sess=abc''\<rparr>]"
      note_payload]
    routing_ssr_maps_response [of
      "demo_routing (Some (demo_graphql None None)) (\<lambda>a. Inr note_payload)"
      "demo_ctx ''/note/123'' []" "\<lparr>match_params = JObj [(''id'', JStr ''123'')]\<rparr>"
      "\<lparr>graphql = Some (demo_graphql None None)\<rparr>"
      "demo_graphql None None"
      "[FetchGraphQL \<lparr>fa_baseUrl = ''https://localhost:8000'', fa_query = note_query,
            fa_variables = JObj [(''id'', JStr ''123'')], fa_cookie = Some ''koa:sess=abc''\<rparr>]"
      note_payload]
    routing_ssr_maps_response [of
      "demo_routing (Some (demo_graphql None (Some note_name))) (\<lambda>a. Inr missing_note_payload)"
      "demo_ctx ''/note/123'' []" "\<lparr>match_params = JObj [(''id'', JStr ''123'')]\<rparr>"
      "\<lparr>graphql = Some (demo_graphql None (Some note_name))\<rparr>"
      "demo_graphql None (Some note_name)"
      "[FetchGraphQL \<lparr>fa_baseUrl = ''https://localhost:8000'', fa_query = note_query,
            fa_variables = JObj [(''id'', JStr ''123'')], fa_cookie = Some ''koa:sess=abc''\<rparr>]"
      missing_note_payload]
    routing_ssr_maps_response [of
      "demo_routing (Some (demo_graphql None (Some (\<lambda>p. Inl (Err ''unauthorized''))))) (\<lambda>a. Inr note_payload)"
      "demo_ctx ''/note/123'' []" "\<lparr>match_params = JObj [(''id'', JStr ''123'')]\<rparr>"
      "\<lparr>graphql = Some (demo_graphql None (Some (\<lambda>p. Inl (Err ''unauthorized''))))\<rparr>"
      "demo_graphql None (Some (\<lambda>p. Inl (Err ''unauthorized'')))"
      "[FetchGraphQL \<lparr>fa_baseUrl = ''https://localhost:8000'', fa_query = note_query,
            fa_variables = JObj [(''id'', JStr ''123'')], fa_cookie = Some ''koa:sess=abc''\<rparr>]"
      note_payload]
  by (simp add: demo_routing_def demo_graphql_def demo_ctx_def graphqlCall_def baseUrlOf_def
      note_name_def note_payload_def missing_note_payload_def field_def Let_def)

section \<open>Properties of the catch-all handler of server.js\<close>

text \<open>
  The handler calls \<^verbatim>\<open>next()\<close> for the URLs under \<^verbatim>\<open>/static\<close> and for no others.
\<close>

lemma server_ssr_next_iff_static:
  "resp (server_ssr E c) = Next \<longleftrightarrow> prefix ''/static'' (req_url c)"
  by (auto simp: server_ssr_def split: prod.splits option.splits sum.splits)

text \<open>
  Its \<^verbatim>\<open>catch\<close> block does not look at the error: every failure of \<^verbatim>\<open>fetchGraphQL\<close>
  redirects to \<^verbatim>\<open>/unauthorized\<close>, nothing is logged and nothing is rendered.
\<close>

lemma server_ssr_any_failure:
  assumes "find_route (matchPath E) (req_url c) (allPageRoutes E) EmptyObject = (ar, mv)"
    and "\<not> prefix ''/static'' (req_url c)"
    and "queryVariables ar mv = Inr vars"
    and "activeQuery ar = Some q"
    and "fetchGraphQL2 E q vars = Inl e"
  shows "server_ssr E c =
    \<lparr>calls = [FetchGraphQL2 q vars], sess = ctx_session c, resp = Redirect ''/unauthorized''\<rparr>"
  using assms by (simp add: server_ssr_def)

text \<open>
  The variables it sends are those \<^verbatim>\<open>getVariables\<close> returns, and \<^verbatim>\<open>undefined\<close> for a
  route without \<^verbatim>\<open>getVariables\<close>, whatever the path parameters are.
\<close>

lemma queryVariables_without_mapper:
  "route_getVariables r = None \<Longrightarrow> queryVariables (Some r) mv = Inr JUndefined"
  by (simp add: queryVariables_def)

lemma queryVariables_with_mapper:
  "route_getVariables r = Some f \<Longrightarrow>
     queryVariables (Some r) (MatchResult (Some m)) = f (match_params m)"
  by (simp add: queryVariables_def)

text \<open>
  The document written to \<^verbatim>\<open>ctx.body\<close> embeds the serialisation of the very state the page
  was rendered from: \<^verbatim>\<open>{ page: pageData, general: { username: 'Sven' } }\<close>.
\<close>

lemma renderBody_embeds_state:
  "renderBody E c pageData =
     document
       (renderStatic E (JObj [(''page'', pageData), (''general'', JObj [(''username'', JStr ''Sven'')])]) (req_url c))
       (renderToString E (JObj [(''page'', pageData), (''general'', JObj [(''username'', JStr ''Sven'')])]) (req_url c))
       (serialize E (JObj [(''page'', pageData), (''general'', JObj [(''username'', JStr ''Sven'')])]))"
  by (simp add: renderBody_def storeState_def getGeneralData_def Let_def)

text \<open>
  Claim C1, on the handler of \<^verbatim>\<open>server.js\<close>. The route \<^verbatim>\<open>/note/:id\<close> declares a query
  and \<^verbatim>\<open>fetchGraphQL\<close> rejects with the message \<^verbatim>\<open>unauthorized\<close>: the handler redirects
  to \<^verbatim>\<open>/unauthorized\<close>, where the claim and \<^verbatim>\<open>setUpRouting\<close>'s handler
  (lemma \<open>routing_ssr_unauthorized\<close>) have \<^verbatim>\<open>/login\<close>. No body is written.
\<close>

theorem server_ssr_unauthorized_target:
  "server_ssr (demo_server (\<lambda>q v. Inl (Err ''unauthorized''))) (demo_ctx ''/note/123'' [])
     = \<lparr>calls = [FetchGraphQL2 note_query JUndefined], sess = \<lparr>session_user = None\<rparr>,
        resp = Redirect ''/unauthorized''\<rparr>"
  by (simp add: server_ssr_def demo_server_def demo_ctx_def demo_routes_def note_route_def
      demo_matchPath_def queryVariables_def activeQuery_def note_query_def)

text \<open>
  Claim C2, on the handler of \<^verbatim>\<open>server.js\<close>. The same route, and \<^verbatim>\<open>fetchGraphQL\<close>
  rejects with a network error: the handler redirects to \<^verbatim>\<open>/unauthorized\<close>; it neither
  logs the error nor renders a page, where the claim and \<^verbatim>\<open>setUpRouting\<close>'s handler
  (lemma \<open>routing_ssr_other_failure\<close>) log it and render with the empty page data.
\<close>

theorem server_ssr_failure_redirects:
  "calls (server_ssr (demo_server (\<lambda>q v. Inl (Err ''connect ECONNREFUSED''))) (demo_ctx ''/note/123'' []))
     = [FetchGraphQL2 note_query JUndefined] \<and>
   resp (server_ssr (demo_server (\<lambda>q v. Inl (Err ''connect ECONNREFUSED''))) (demo_ctx ''/note/123'' []))
     = Redirect ''/unauthorized''"
  by (simp add: server_ssr_def demo_server_def demo_ctx_def demo_routes_def note_route_def
      demo_matchPath_def queryVariables_def activeQuery_def note_query_def)

text \<open>
  Claim C5, on the handler of \<^verbatim>\<open>server.js\<close>. The route \<^verbatim>\<open>/note/:id\<close> declares a query
  and no \<^verbatim>\<open>getVariables\<close>; for \<^verbatim>\<open>/note/123\<close> the path parameters are
  \<^verbatim>\<open>{ id: '123' }\<close>, and the variables passed to \<^verbatim>\<open>fetchGraphQL\<close> are \<^verbatim>\<open>undefined\<close>,
  where the claim and \<^verbatim>\<open>graphqlCall\<close> (lemma \<open>graphqlCall_variables\<close>) pass the path
  parameters.
\<close>

theorem server_ssr_variables_undefined:
  "find_route demo_matchPath ''/note/123'' demo_routes EmptyObject
     = (Some note_route, MatchResult (Some \<lparr>match_params = JObj [(''id'', JStr ''123'')]\<rparr>)) \<and>
   route_getVariables note_route = None \<and>
   calls (server_ssr (demo_server (\<lambda>q v. Inr note_payload)) (demo_ctx ''/note/123'' []))
     = [FetchGraphQL2 note_query JUndefined]"
  by (simp add: server_ssr_def demo_server_def demo_ctx_def demo_routes_def note_route_def
      demo_matchPath_def queryVariables_def activeQuery_def note_query_def)

text \<open>
  Claim C3, as stated, fails: \<^verbatim>\<open>/nowhere\<close> matches no entry of the sample table and is
  not under \<^verbatim>\<open>/static\<close>, yet the handler does not call \<^verbatim>\<open>next()\<close>; it writes the
  document itself, rendered with the empty page data.
\<close>

theorem server_ssr_unmatched_not_next:
  "fst (find_route demo_matchPath ''/nowhere'' demo_routes EmptyObject) = None \<and>
   \<not> prefix ''/static'' ''/nowhere'' \<and>
   resp (server_ssr (demo_server (\<lambda>q v. Inr note_payload)) (demo_ctx ''/nowhere'' [])) \<noteq> Next \<and>
   resp (server_ssr (demo_server (\<lambda>q v. Inr note_payload)) (demo_ctx ''/nowhere'' []))
     = Body (renderBody (demo_server (\<lambda>q v. Inr note_payload)) (demo_ctx ''/nowhere'' []) (JObj []))"
  by (simp add: server_ssr_def demo_server_def demo_ctx_def demo_routes_def note_route_def
      pinned_route_def home_route_def demo_matchPath_def queryVariables_def activeQuery_def)

text \<open>
  Claim C3, amended. For every request URL that matches no entry of the route table and is
  not under \<^verbatim>\<open>/static\<close>, the search finds no entry (\<^verbatim>\<open>activeRoute\<close> defaults to the
  empty object), no GraphQL call is made, and the handler itself writes the document,
  rendered with the empty page data; it does not hand the request to the next middleware.
\<close>

theorem server_ssr_unmatched_renders:
  assumes "\<forall>r\<in>set (allPageRoutes E). matchPath E (req_url c) r = None"
    and "\<not> prefix ''/static'' (req_url c)"
  shows "fst (find_route (matchPath E) (req_url c) (allPageRoutes E) EmptyObject) = None \<and>
         server_ssr E c = \<lparr>calls = [], sess = ctx_session c,
                            resp = Body (renderBody E c (JObj []))\<rparr> \<and>
         resp (server_ssr E c) \<noteq> Next"
proof -
  have found: "find_route (matchPath E) (req_url c) (allPageRoutes E) EmptyObject
      = (None, if allPageRoutes E = [] then EmptyObject else MatchResult None)"
    using assms(1) by (rule find_route_none)
  then show ?thesis
    using assms(2) by (simp add: server_ssr_def queryVariables_def activeQuery_def)
qed

theorem server_ssr_unmatched_renders_witness:
  "demo_matchPath ''/nowhere'' note_route = None \<and>
   demo_matchPath ''/nowhere'' pinned_route = None \<and>
   demo_matchPath ''/nowhere'' home_route = None \<and>
   \<not> prefix ''/static'' ''/nowhere'' \<and>
   server_ssr (demo_server (\<lambda>q v. Inr note_payload)) (demo_ctx ''/nowhere'' [])
     = \<lparr>calls = [], sess = \<lparr>session_user = None\<rparr>,
        resp = Body (renderBody (demo_server (\<lambda>q v. Inr note_payload)) (demo_ctx ''/nowhere'' []) (JObj []))\<rparr>"
  using server_ssr_unmatched_renders [of "demo_server (\<lambda>q v. Inr note_payload)" "demo_ctx ''/nowhere'' []"]
  by (simp add: demo_server_def demo_ctx_def demo_routes_def note_route_def
      pinned_route_def home_route_def demo_matchPath_def)

end
